theory Spec2Isabelle
  imports Main
begin

section \<open>The module \<open>compare_elo.py\<close>\<close>

text \<open>
  The module holds one module-level list, \<open>newList\<close>, the class \<open>MovieObject\<close> and the two
  functions \<open>calculateTotalElo\<close> and \<open>checkAll\<close>.
  \<^verbatim>\<open>
  newList = [];

  class MovieObject(TypedDict):
      title: str
      elo: int
  \<close>
\<close>

subsection \<open>Values\<close>

text \<open>The two exceptions the operations of the module can raise.\<close>

datatype error = IndexError | AttributeError

record MovieObject =
  title :: string
  elo :: int

text \<open>
  The functions read a record through the attributes \<open>y.title\<close> and \<open>y.elo\<close>, and build one
  with \<open>MovieObject(title=..., elo=...)\<close>. A \<open>TypedDict\<close> class is a plain \<open>dict\<close> at run
  time, so what \<open>MovieObject(...)\<close> builds is the dictionary \<open>{'title': t, 'elo': e}\<close>, which has
  the two keys and no attribute of either name: \<open>y.title\<close> raises \<open>AttributeError\<close> on it.
  An element of a list is therefore one of two things, each carrying a title and an elo:
  \<^item> \<open>Obj r\<close>: an object with the attributes \<open>title\<close> and \<open>elo\<close>;
  \<^item> \<open>Dict r\<close>: a \<open>MovieObject\<close> dictionary.
\<close>

datatype pyobj = Obj MovieObject | Dict MovieObject

fun fields_of :: "pyobj \<Rightarrow> MovieObject" where
  "fields_of (Obj r) = r"
| "fields_of (Dict r) = r"

fun is_Obj :: "pyobj \<Rightarrow> bool" where
  "is_Obj (Obj r) = True"
| "is_Obj (Dict r) = False"

text \<open>Attribute access \<open>y.title\<close> and \<open>y.elo\<close>.\<close>

fun getattr_title :: "pyobj \<Rightarrow> error + string" where
  "getattr_title (Obj r) = Inr (title r)"
| "getattr_title (Dict r) = Inl AttributeError"

fun getattr_elo :: "pyobj \<Rightarrow> error + int" where
  "getattr_elo (Obj r) = Inr (elo r)"
| "getattr_elo (Dict r) = Inl AttributeError"

text \<open>Indexing \<open>xs[i]\<close> with an index that is not negative: out of range it raises.\<close>

fun getitem :: "'a list \<Rightarrow> nat \<Rightarrow> error + 'a" where
  "getitem xs i = (if i < length xs then Inr (xs ! i) else Inl IndexError)"

subsection \<open>The store\<close>

text \<open>
  Python lists are mutable objects, reached through references. A store gives the contents
  of the list object at each address; a group of records is passed as its address, and a
  collection \<open>movieList\<close> as the sequence of the addresses of its groups. The module-level
  list \<open>newList\<close> is one such object, created empty when the module is imported; any group
  of a collection may be that very object.

  The outer list of a collection is a value here, so the collection itself is a list of
  the caller's other than \<open>newList\<close>: the call \<open>checkAll(newList)\<close>, in which \<open>append\<close> would
  write to the collection, is outside this model, and no statement below says anything
  about the outer list after a call.
\<close>

type_synonym addr = nat

type_synonym store = "addr \<Rightarrow> pyobj list"

definition newList :: addr where
  "newList = 0"

subsection \<open>calculateTotalElo\<close>

text \<open>
  \<^verbatim>\<open>
  def calculateTotalElo(movieList: List[List[MovieObject]], movieName: str) -> int:
      totalElo = 0
      for x in movieList:
          for y in x:
              if y.title == movieName:
                  totalElo += y.elo;
      return totalElo;
  \<close>
  The inner loop, over the records \<open>y\<close> of one group, and the outer loop, over the groups
  \<open>x\<close>; both carry the accumulator \<open>totalElo\<close>, and an exception ends them.
\<close>

fun for_y :: "pyobj list \<Rightarrow> string \<Rightarrow> int \<Rightarrow> error + int" where
  "for_y [] movieName totalElo = Inr totalElo"
| "for_y (y # ys) movieName totalElo =
     (case getattr_title y of
        Inl e \<Rightarrow> Inl e
      | Inr t \<Rightarrow>
          if t = movieName then
            (case getattr_elo y of
               Inl e \<Rightarrow> Inl e
             | Inr v \<Rightarrow> for_y ys movieName (totalElo + v))
          else for_y ys movieName totalElo)"

fun for_x :: "store \<Rightarrow> addr list \<Rightarrow> string \<Rightarrow> int \<Rightarrow> error + int" where
  "for_x h [] movieName totalElo = Inr totalElo"
| "for_x h (x # xs) movieName totalElo =
     (case for_y (h x) movieName totalElo of
        Inl e \<Rightarrow> Inl e
      | Inr totalElo' \<Rightarrow> for_x h xs movieName totalElo')"

text \<open>The function writes to no list: it returns the store it was given.\<close>

definition calculateTotalElo :: "addr list \<Rightarrow> string \<Rightarrow> store \<Rightarrow> (error + int) \<times> store" where
  "calculateTotalElo movieList movieName h = (for_x h movieList movieName 0, h)"

subsection \<open>checkAll\<close>

text \<open>
  \<^verbatim>\<open>
  def checkAll(movieList):
      for i in range(len(movieList[0])):
          newElo = calculateTotalElo(movieList, movieList[0][i].title)
          movieObj = MovieObject(title=movieList[0][i].title, elo=newElo)
          newList.append(movieObj)
      return newList
  \<close>
  One pass of the loop body, at index \<open>i\<close>: the two indexings and the attribute access of
  each of the two lines can raise, and so can the call; \<open>append\<close> writes to the list object
  \<open>newList\<close>.
\<close>

definition checkAll_body :: "addr list \<Rightarrow> nat \<Rightarrow> store \<Rightarrow> (error + unit) \<times> store" where
  "checkAll_body movieList i h =
     (case getitem movieList 0 of
        Inl e \<Rightarrow> (Inl e, h)
      | Inr g \<Rightarrow>
     (case getitem (h g) i of
        Inl e \<Rightarrow> (Inl e, h)
      | Inr y \<Rightarrow>
     (case getattr_title y of
        Inl e \<Rightarrow> (Inl e, h)
      | Inr t \<Rightarrow>
     (case calculateTotalElo movieList t h of
        (Inl e, h1) \<Rightarrow> (Inl e, h1)
      | (Inr newElo, h1) \<Rightarrow>
     (case getitem movieList 0 of
        Inl e \<Rightarrow> (Inl e, h1)
      | Inr g' \<Rightarrow>
     (case getitem (h1 g') i of
        Inl e \<Rightarrow> (Inl e, h1)
      | Inr y' \<Rightarrow>
     (case getattr_title y' of
        Inl e \<Rightarrow> (Inl e, h1)
      | Inr t' \<Rightarrow>
          (Inr (), h1(newList := h1 newList @ [Dict \<lparr>title = t', elo = newElo\<rparr>])))))))))"

text \<open>
  The loop over \<open>range(len(movieList[0]))\<close>: the range is computed once, before the first
  pass. An exception ends the loop and leaves in \<open>newList\<close> what the earlier passes appended.
\<close>

fun checkAll_for :: "addr list \<Rightarrow> nat list \<Rightarrow> store \<Rightarrow> (error + unit) \<times> store" where
  "checkAll_for movieList [] h = (Inr (), h)"
| "checkAll_for movieList (i # is) h =
     (case checkAll_body movieList i h of
        (Inl e, h') \<Rightarrow> (Inl e, h')
      | (Inr u, h') \<Rightarrow> checkAll_for movieList is h')"

text \<open>The function returns a reference: the address of \<open>newList\<close>.\<close>

definition checkAll :: "addr list \<Rightarrow> store \<Rightarrow> (error + addr) \<times> store" where
  "checkAll movieList h =
     (case getitem movieList 0 of
        Inl e \<Rightarrow> (Inl e, h)
      | Inr g \<Rightarrow>
     (case checkAll_for movieList [0..<length (h g)] h of
        (Inl e, h') \<Rightarrow> (Inl e, h')
      | (Inr u, h') \<Rightarrow> (Inr newList, h')))"

subsection \<open>What the statements below are written with\<close>

text \<open>
  The records of a collection: every record of every group, in the order in which the two
  loops of \<open>calculateTotalElo\<close> visit them.
\<close>

definition records_of :: "store \<Rightarrow> addr list \<Rightarrow> pyobj list" where
  "records_of h movieList = concat (map h movieList)"

text \<open>
  The arithmetic sum of the \<open>elo\<close> of the records whose \<open>title\<close> is \<open>n\<close>; equality of
  strings is equality of their character sequences.
\<close>

definition elo_sum :: "pyobj list \<Rightarrow> string \<Rightarrow> int" where
  "elo_sum ys n = sum_list (map (\<lambda>y. elo (fields_of y)) (filter (\<lambda>y. title (fields_of y) = n) ys))"

text \<open>
  The entry of the output for a record \<open>y\<close> of the first group: the title of \<open>y\<close> with the
  sum of the collection for that title, as a \<open>MovieObject\<close> dictionary.
\<close>

definition entry :: "store \<Rightarrow> addr list \<Rightarrow> pyobj \<Rightarrow> pyobj" where
  "entry h movieList y =
     Dict \<lparr>title = title (fields_of y), elo = elo_sum (records_of h movieList) (title (fields_of y))\<rparr>"

subsection \<open>Example stores\<close>

text \<open>The store right after the module is imported, with no other list in it.\<close>

definition empty_lists :: store where
  "empty_lists = (\<lambda>a. [])"

text \<open>
  Two groups of objects with attributes, at the addresses 2 and 3:
  \<open>[[A:10, a:7, B:5], [A:3]]\<close>.
\<close>

definition ratings :: store where
  "ratings = empty_lists
     (2 := [Obj \<lparr>title = ''A'', elo = 10\<rparr>, Obj \<lparr>title = ''a'', elo = 7\<rparr>,
            Obj \<lparr>title = ''B'', elo = 5\<rparr>],
      3 := [Obj \<lparr>title = ''A'', elo = 3\<rparr>])"

text \<open>The groups \<open>[A:2]\<close> at address 2 and \<open>[B:9]\<close> at address 3; the list at 4 is empty.\<close>

definition two_groups :: store where
  "two_groups = empty_lists
     (2 := [Obj \<lparr>title = ''A'', elo = 2\<rparr>],
      3 := [Obj \<lparr>title = ''B'', elo = 9\<rparr>])"

text \<open>
  A group of the declared type \<open>List[MovieObject]\<close> at address 2: its one record is the
  dictionary \<open>MovieObject(title="A", elo=1)\<close>.
\<close>

definition typed_group :: store where
  "typed_group = empty_lists(2 := [Dict \<lparr>title = ''A'', elo = 1\<rparr>])"

section \<open>Properties\<close>

subsection \<open>The sum computed by the two loops\<close>

lemma elo_sum_Nil: "elo_sum [] n = 0"
  by (simp add: elo_sum_def)

lemma elo_sum_append: "elo_sum (xs @ ys) n = elo_sum xs n + elo_sum ys n"
  by (simp add: elo_sum_def)

lemma elo_sum_Cons:
  "elo_sum (y # ys) n = (if title (fields_of y) = n then elo (fields_of y) else 0) + elo_sum ys n"
  by (simp add: elo_sum_def)

lemma for_y_char:
  "for_y ys n acc = (if list_all is_Obj ys then Inr (acc + elo_sum ys n) else Inl AttributeError)"
proof (induction ys arbitrary: acc)
  case Nil
  show ?case by (simp add: elo_sum_Nil)
next
  case (Cons y ys)
  show ?case
  proof (cases y)
    case (Obj r)
    then show ?thesis by (simp add: Cons.IH elo_sum_Cons)
  next
    case (Dict r)
    then show ?thesis by simp
  qed
qed

lemma for_x_char:
  "for_x h ml n acc =
     (if list_all is_Obj (records_of h ml) then Inr (acc + elo_sum (records_of h ml) n)
      else Inl AttributeError)"
proof (induction ml arbitrary: acc)
  case Nil
  show ?case by (simp add: records_of_def elo_sum_Nil)
next
  case (Cons x xs)
  show ?case
    by (simp add: for_y_char Cons.IH records_of_def elo_sum_append)
qed

lemma calculateTotalElo_char:
  "calculateTotalElo ml n h =
     (if list_all is_Obj (records_of h ml) then Inr (elo_sum (records_of h ml) n)
      else Inl AttributeError, h)"
  by (simp add: calculateTotalElo_def for_x_char)

subsection \<open>A call of checkAll on groups of objects, none of them newList\<close>

lemma records_of_cong:
  "\<forall>a \<in> set ml. h' a = h a \<Longrightarrow> records_of h' ml = records_of h ml"
  by (simp add: records_of_def cong: map_cong)

lemma checkAll_body_ok:
  assumes ne: "ml \<noteq> []" and na: "newList \<notin> set ml"
    and ob: "list_all is_Obj (records_of h ml)"
    and ag: "\<forall>a. a \<noteq> newList \<longrightarrow> h' a = h a"
    and i: "i < length (h (ml ! 0))"
  shows "checkAll_body ml i h' =
           (Inr (), h'(newList := h' newList @ [entry h ml (h (ml ! 0) ! i)]))"
proof -
  from ne have m0: "ml ! 0 \<in> set ml" by (cases ml) simp_all
  with na have g: "ml ! 0 \<noteq> newList" by auto
  with ag have hg: "h' (ml ! 0) = h (ml ! 0)" by simp
  from na ag have "\<forall>a \<in> set ml. h' a = h a" by metis
  then have ro: "records_of h' ml = records_of h ml" by (rule records_of_cong)
  from i have "h (ml ! 0) ! i \<in> set (h (ml ! 0))" by simp
  with m0 have "h (ml ! 0) ! i \<in> set (records_of h ml)" by (auto simp: records_of_def)
  with ob have "is_Obj (h (ml ! 0) ! i)" by (simp add: list_all_iff)
  then obtain r where r: "h (ml ! 0) ! i = Obj r" by (cases "h (ml ! 0) ! i") simp_all
  from ne i show ?thesis
    by (simp add: checkAll_body_def calculateTotalElo_char hg ro ob r entry_def)
qed

lemma checkAll_for_ok:
  assumes ne: "ml \<noteq> []" and na: "newList \<notin> set ml"
    and ob: "list_all is_Obj (records_of h ml)"
  shows "(\<forall>a. a \<noteq> newList \<longrightarrow> h' a = h a) \<Longrightarrow> \<forall>i \<in> set js. i < length (h (ml ! 0)) \<Longrightarrow>
     checkAll_for ml js h' =
       (Inr (), h'(newList := h' newList @ map (\<lambda>i. entry h ml (h (ml ! 0) ! i)) js))"
proof (induction js arbitrary: h')
  case Nil
  show ?case by simp
next
  case (Cons j js)
  let ?h1 = "h'(newList := h' newList @ [entry h ml (h (ml ! 0) ! j)])"
  from Cons.prems have b: "checkAll_body ml j h' = (Inr (), ?h1)"
    by (intro checkAll_body_ok [OF ne na ob]) simp_all
  from Cons.prems have ag: "\<forall>a. a \<noteq> newList \<longrightarrow> ?h1 a = h a" by simp
  from Cons.prems have "\<forall>i \<in> set js. i < length (h (ml ! 0))" by simp
  from Cons.IH [OF ag this]
  have "checkAll_for ml js ?h1 =
      (Inr (), ?h1(newList := ?h1 newList @ map (\<lambda>i. entry h ml (h (ml ! 0) ! i)) js))" .
  moreover have "?h1(newList := ?h1 newList @ map (\<lambda>i. entry h ml (h (ml ! 0) ! i)) js) =
      h'(newList := h' newList @ map (\<lambda>i. entry h ml (h (ml ! 0) ! i)) (j # js))"
    by simp
  ultimately show ?case using b by (simp del: fun_upd_apply)
qed

lemma checkAll_ok:
  assumes ne: "ml \<noteq> []" and na: "newList \<notin> set ml"
    and ob: "list_all is_Obj (records_of h ml)"
  shows "checkAll ml h = (Inr newList, h(newList := h newList @ map (entry h ml) (h (ml ! 0))))"
proof -
  have "checkAll_for ml [0..<length (h (ml ! 0))] h =
      (Inr (), h(newList := h newList @
         map (\<lambda>i. entry h ml (h (ml ! 0) ! i)) [0..<length (h (ml ! 0))]))"
    by (rule checkAll_for_ok [OF ne na ob]) simp_all
  moreover have "map (\<lambda>i. entry h ml (h (ml ! 0) ! i)) [0..<length (h (ml ! 0))] =
      map (entry h ml) (h (ml ! 0))"
    by (rule nth_equalityI) simp_all
  ultimately show ?thesis using ne by (simp add: checkAll_def)
qed

subsection \<open>What a call of checkAll that returns has done\<close>






subsection \<open>Facts for the examples\<close>

lemma records_of_append: "records_of h (ml1 @ ml2) = records_of h ml1 @ records_of h ml2"
  by (simp add: records_of_def)

lemma ratings_records:
  "ratings 2 = [Obj \<lparr>title = ''A'', elo = 10\<rparr>, Obj \<lparr>title = ''a'', elo = 7\<rparr>,
                Obj \<lparr>title = ''B'', elo = 5\<rparr>]"
  "ratings 3 = [Obj \<lparr>title = ''A'', elo = 3\<rparr>]"
  "ratings newList = []"
  by (simp_all add: ratings_def empty_lists_def newList_def)

lemma two_groups_records:
  "two_groups 2 = [Obj \<lparr>title = ''A'', elo = 2\<rparr>]"
  "two_groups 3 = [Obj \<lparr>title = ''B'', elo = 9\<rparr>]"
  "two_groups 4 = []"
  "two_groups newList = []"
  by (simp_all add: two_groups_def empty_lists_def newList_def)

lemma checkAll_A:
  "checkAll [2] two_groups =
     (Inr newList, two_groups(newList := [Dict \<lparr>title = ''A'', elo = 2\<rparr>]))"
proof -
  have "checkAll [2] two_groups = (Inr newList,
      two_groups(newList := two_groups newList @ map (entry two_groups [2]) (two_groups ([2] ! 0))))"
    by (rule checkAll_ok) (simp_all add: newList_def records_of_def two_groups_records)
  then show ?thesis
    by (simp add: two_groups_records entry_def records_of_def elo_sum_def)
qed

lemma checkAll_B:
  "checkAll [3] two_groups =
     (Inr newList, two_groups(newList := [Dict \<lparr>title = ''B'', elo = 9\<rparr>]))"
proof -
  have "checkAll [3] two_groups = (Inr newList,
      two_groups(newList := two_groups newList @ map (entry two_groups [3]) (two_groups ([3] ! 0))))"
    by (rule checkAll_ok) (simp_all add: newList_def records_of_def two_groups_records)
  then show ?thesis
    by (simp add: two_groups_records entry_def records_of_def elo_sum_def)
qed

lemma checkAll_A_A:
  "checkAll [2] (two_groups(newList := [Dict \<lparr>title = ''A'', elo = 2\<rparr>])) =
     (Inr newList, two_groups(newList :=
        [Dict \<lparr>title = ''A'', elo = 2\<rparr>, Dict \<lparr>title = ''A'', elo = 2\<rparr>]))"
proof -
  let ?h = "two_groups(newList := [Dict \<lparr>title = ''A'', elo = 2\<rparr>])"
  have g: "?h 2 = [Obj \<lparr>title = ''A'', elo = 2\<rparr>]"
    by (simp add: two_groups_records newList_def)
  have "checkAll [2] ?h =
      (Inr newList, ?h(newList := ?h newList @ map (entry ?h [2]) (?h ([2] ! 0))))"
    by (rule checkAll_ok) (simp_all add: newList_def records_of_def two_groups_records)
  then show ?thesis
    by (simp add: g entry_def records_of_def elo_sum_def fun_upd_same del: fun_upd_apply)
qed

lemma checkAll_A_B:
  "checkAll [3] (two_groups(newList := [Dict \<lparr>title = ''A'', elo = 2\<rparr>])) =
     (Inr newList, two_groups(newList :=
        [Dict \<lparr>title = ''A'', elo = 2\<rparr>, Dict \<lparr>title = ''B'', elo = 9\<rparr>]))"
proof -
  let ?h = "two_groups(newList := [Dict \<lparr>title = ''A'', elo = 2\<rparr>])"
  have g: "?h 3 = [Obj \<lparr>title = ''B'', elo = 9\<rparr>]"
    by (simp add: two_groups_records newList_def)
  have "checkAll [3] ?h =
      (Inr newList, ?h(newList := ?h newList @ map (entry ?h [3]) (?h ([3] ! 0))))"
    by (rule checkAll_ok) (simp_all add: newList_def records_of_def two_groups_records)
  then show ?thesis
    by (simp add: g entry_def records_of_def elo_sum_def fun_upd_same del: fun_upd_apply)
qed

lemma checkAll_B_AB:
  "checkAll [2, 3] (two_groups(newList := [Dict \<lparr>title = ''B'', elo = 9\<rparr>])) =
     (Inr newList, two_groups(newList :=
        [Dict \<lparr>title = ''B'', elo = 9\<rparr>, Dict \<lparr>title = ''A'', elo = 2\<rparr>]))"
proof -
  let ?h = "two_groups(newList := [Dict \<lparr>title = ''B'', elo = 9\<rparr>])"
  have g: "?h 2 = [Obj \<lparr>title = ''A'', elo = 2\<rparr>]" "?h 3 = [Obj \<lparr>title = ''B'', elo = 9\<rparr>]"
    by (simp_all add: two_groups_records newList_def)
  have "checkAll [2, 3] ?h =
      (Inr newList, ?h(newList := ?h newList @ map (entry ?h [2, 3]) (?h ([2, 3] ! 0))))"
    by (rule checkAll_ok) (simp_all add: newList_def records_of_def two_groups_records)
  then show ?thesis
    by (simp add: g entry_def records_of_def elo_sum_def fun_upd_same del: fun_upd_apply)
qed



section \<open>The claims\<close>

text \<open>
  Claim C1 says that \<open>calculateTotalElo\<close> returns, for every collection and every name \<open>n\<close>,
  the arithmetic sum of the \<open>elo\<close> of the records whose \<open>title\<close> equals \<open>n\<close>. The code returns
  that sum exactly when every record of the collection is an object with the attributes
  \<open>title\<close> and \<open>elo\<close>; as soon as one record is of the declared type, a \<open>MovieObject\<close>
  dictionary, \<open>y.title\<close> raises \<open>AttributeError\<close>. On the collection
  \<open>[[MovieObject(title="A", elo=1)]]\<close> and the name \<open>A\<close> the sum is 1 and the call raises.
\<close>

theorem calculateTotalElo_declared_type:
  "fst (calculateTotalElo movieList n h) =
     (if list_all is_Obj (records_of h movieList)
      then Inr (sum_list (map (\<lambda>y. elo (fields_of y))
             (filter (\<lambda>y. title (fields_of y) = n) (records_of h movieList))))
      else Inl AttributeError)
   \<and> records_of typed_group [2] = [Dict \<lparr>title = ''A'', elo = 1\<rparr>]
   \<and> sum_list (map (\<lambda>y. elo (fields_of y))
        (filter (\<lambda>y. title (fields_of y) = ''A'') (records_of typed_group [2]))) = 1
   \<and> fst (calculateTotalElo [2] ''A'' typed_group) = Inl AttributeError"
proof -
  have r: "records_of typed_group [2] = [Dict \<lparr>title = ''A'', elo = 1\<rparr>]"
    by (simp add: records_of_def typed_group_def empty_lists_def)
  show ?thesis
    by (simp add: calculateTotalElo_char elo_sum_def r)
qed

text \<open>
  Claim C10. The total computed by \<open>calculateTotalElo\<close> does not depend on the grouping: for
  every collection and name it is what \<open>calculateTotalElo\<close> returns on the collection of one
  group, a list holding the concatenation of all the groups in order (both calls raise in
  the same cases); and the total of the concatenation of two collections is the sum of
  their totals.
\<close>

theorem calculateTotalElo_regroup:
  "fst (calculateTotalElo movieList n h) =
     fst (calculateTotalElo [a] n (h(a := concat (map h movieList))))
   \<and> (fst (calculateTotalElo ml1 n h) = Inr v1 \<longrightarrow> fst (calculateTotalElo ml2 n h) = Inr v2 \<longrightarrow>
        fst (calculateTotalElo (ml1 @ ml2) n h) = Inr (v1 + v2))"
proof (intro conjI impI)
  have "records_of (h(a := concat (map h movieList))) [a] = records_of h movieList"
    by (simp add: records_of_def)
  then show "fst (calculateTotalElo movieList n h) =
      fst (calculateTotalElo [a] n (h(a := concat (map h movieList))))"
    by (simp only: calculateTotalElo_char fst_conv)
next
  assume "fst (calculateTotalElo ml1 n h) = Inr v1" and "fst (calculateTotalElo ml2 n h) = Inr v2"
  then show "fst (calculateTotalElo (ml1 @ ml2) n h) = Inr (v1 + v2)"
    by (simp add: calculateTotalElo_char records_of_append elo_sum_append split: if_splits)
qed

theorem calculateTotalElo_regroup_witness:
  "fst (calculateTotalElo [2, 3] ''A'' ratings) = Inr 13
   \<and> fst (calculateTotalElo [7] ''A'' (ratings(7 := concat (map ratings [2, 3])))) = Inr 13
   \<and> fst (calculateTotalElo [2] ''A'' ratings) = Inr 10
   \<and> fst (calculateTotalElo [3] ''A'' ratings) = Inr 3
   \<and> fst (calculateTotalElo ([2] @ [3]) ''A'' ratings) = Inr (10 + 3)"
proof -
  have a: "fst (calculateTotalElo [2] ''A'' ratings) = Inr 10"
    by (simp add: calculateTotalElo_def ratings_records)
  have b: "fst (calculateTotalElo [3] ''A'' ratings) = Inr 3"
    by (simp add: calculateTotalElo_def ratings_records)
  have c: "fst (calculateTotalElo [2, 3] ''A'' ratings) = Inr 13"
    by (simp add: calculateTotalElo_def ratings_records)
  from calculateTotalElo_regroup [of "[2, 3]" "''A''" ratings 7 "[2]" 10 "[3]" 3] a b c
  show ?thesis by simp
qed




text \<open>
  Claim C2 says that for every collection that is not empty the output of \<open>checkAll\<close> has
  the length of the first group, with the names of that group and their totals. The code
  appends to the module-level list \<open>newList\<close> and returns it, so the output also holds what
  earlier calls left there: \<open>checkAll([[A:2]])\<close>, called a second time on the same
  collection, returns two records where the first group has one. And when a group of the
  collection is \<open>newList\<close> itself, as in \<open>[[A:10, a:7, B:5], newList]\<close> with \<open>newList\<close> empty, the
  first pass appends a dictionary to it and the second pass raises \<open>AttributeError\<close> when
  \<open>calculateTotalElo\<close> reads that dictionary.
\<close>

theorem checkAll_length_counterexample:
  "two_groups newList = []
   \<and> snd (checkAll [2] two_groups) 2 = [Obj \<lparr>title = ''A'', elo = 2\<rparr>]
   \<and> fst (checkAll [2] (snd (checkAll [2] two_groups))) = Inr newList
   \<and> snd (checkAll [2] (snd (checkAll [2] two_groups))) newList =
       [Dict \<lparr>title = ''A'', elo = 2\<rparr>, Dict \<lparr>title = ''A'', elo = 2\<rparr>]
   \<and> length (snd (checkAll [2] (snd (checkAll [2] two_groups))) newList) \<noteq>
       length (snd (checkAll [2] two_groups) ([2] ! 0))
   \<and> ratings newList = []
   \<and> fst (checkAll [2, newList] ratings) = Inl AttributeError"
proof -
  have "fst (checkAll [2, newList] ratings) = Inl AttributeError"
    by (simp add: checkAll_def checkAll_body_def calculateTotalElo_def ratings_def
        empty_lists_def newList_def upt_rec)
  then show ?thesis
    by (simp add: checkAll_A checkAll_A_A two_groups_records ratings_records)
      (simp add: newList_def)
qed

text \<open>
  Claim C3 says that \<open>checkAll\<close> returns an empty sequence, and raises nothing, when the
  collection is empty and when its first group is empty. The code raises \<open>IndexError\<close> at
  \<open>movieList[0]\<close> on the empty collection; and on an empty first group it returns \<open>newList\<close>
  with what earlier calls left there: \<open>checkAll([[]])\<close> after \<open>checkAll([[B:9]])\<close> returns the
  one record \<open>B:9\<close>.
\<close>

theorem checkAll_empty_counterexample:
  "fst (checkAll [] two_groups) = Inl IndexError
   \<and> snd (checkAll [3] two_groups) 4 = []
   \<and> fst (checkAll [4] (snd (checkAll [3] two_groups))) = Inr newList
   \<and> snd (checkAll [4] (snd (checkAll [3] two_groups))) newList =
       [Dict \<lparr>title = ''B'', elo = 9\<rparr>]
   \<and> snd (checkAll [4] (snd (checkAll [3] two_groups))) newList \<noteq> []"
proof -
  let ?h = "two_groups(newList := [Dict \<lparr>title = ''B'', elo = 9\<rparr>])"
  have g: "?h 4 = []" by (simp add: two_groups_records newList_def)
  have "checkAll [4] ?h = (Inr newList, ?h)" by (simp add: checkAll_def g del: fun_upd_apply)
  moreover have "fst (checkAll [] two_groups) = Inl IndexError" by (simp add: checkAll_def)
  ultimately show ?thesis by (simp add: checkAll_B g del: fun_upd_apply) simp
qed

text \<open>
  Claim C4 says that both functions run to completion on every well-typed input, the
  empty sequence included. The code does not: on a group of the declared type, whose
  records are \<open>MovieObject\<close> dictionaries, \<open>y.title\<close> raises \<open>AttributeError\<close> in
  \<open>calculateTotalElo\<close> and \<open>movieList[0][i].title\<close> raises it in \<open>checkAll\<close>; and on the empty
  collection \<open>movieList[0]\<close> raises \<open>IndexError\<close> in \<open>checkAll\<close>.
\<close>

theorem checkAll_raises:
  "fst (calculateTotalElo [2] ''A'' typed_group) = Inl AttributeError
   \<and> fst (checkAll [2] typed_group) = Inl AttributeError
   \<and> fst (checkAll [] typed_group) = Inl IndexError"
  by (simp add: checkAll_def checkAll_body_def calculateTotalElo_def typed_group_def
      empty_lists_def upt_rec)

text \<open>
  Claim C5 says that two calls of \<open>checkAll\<close> in succession on the same unmodified input
  yield identical output sequences. The code does not: two calls on the collection
  \<open>[[A:2]]\<close>, whose group the first call leaves as it was, return a sequence of one record
  and then a sequence of two.
\<close>

theorem checkAll_twice_counterexample:
  "snd (checkAll [2] two_groups) 2 = two_groups 2
   \<and> fst (checkAll [2] two_groups) = Inr newList
   \<and> fst (checkAll [2] (snd (checkAll [2] two_groups))) = Inr newList
   \<and> snd (checkAll [2] two_groups) newList = [Dict \<lparr>title = ''A'', elo = 2\<rparr>]
   \<and> snd (checkAll [2] (snd (checkAll [2] two_groups))) newList =
       [Dict \<lparr>title = ''A'', elo = 2\<rparr>, Dict \<lparr>title = ''A'', elo = 2\<rparr>]
   \<and> snd (checkAll [2] two_groups) newList \<noteq>
       snd (checkAll [2] (snd (checkAll [2] two_groups))) newList"
  by (simp add: checkAll_A checkAll_A_A) (simp add: newList_def)

text \<open>
  Claim C6 says that each call of \<open>checkAll\<close> builds its output anew and that no result
  buffer is shared by the calls. The code does not: \<open>checkAll([[A:2]])\<close> and then
  \<open>checkAll([[B:9]])\<close> return the same list object, and the sequence the second call returns
  holds the record of the first call before its own, where the same call on a module just
  imported returns the one record \<open>B:9\<close>.
\<close>

theorem checkAll_shared_buffer_counterexample:
  "fst (checkAll [2] two_groups) = Inr newList
   \<and> fst (checkAll [3] (snd (checkAll [2] two_groups))) = fst (checkAll [2] two_groups)
   \<and> snd (checkAll [2] two_groups) newList = [Dict \<lparr>title = ''A'', elo = 2\<rparr>]
   \<and> snd (checkAll [3] (snd (checkAll [2] two_groups))) newList =
       [Dict \<lparr>title = ''A'', elo = 2\<rparr>, Dict \<lparr>title = ''B'', elo = 9\<rparr>]
   \<and> snd (checkAll [3] two_groups) newList = [Dict \<lparr>title = ''B'', elo = 9\<rparr>]
   \<and> snd (checkAll [3] (snd (checkAll [2] two_groups))) newList \<noteq>
       snd (checkAll [3] two_groups) newList"
  by (simp add: checkAll_A checkAll_A_B checkAll_B)

text \<open>
  Claim C7 says that on the input \<open>[[A:2], [B:9]]\<close> \<open>checkAll\<close> returns exactly \<open>[A:2]\<close>, with
  no entry for \<open>B\<close>. The code does not when the call is not the first one: after
  \<open>checkAll([[B:9]])\<close>, the call \<open>checkAll([[A:2], [B:9]])\<close> returns \<open>[B:9, A:2]\<close>, which has an
  entry for \<open>B\<close>.
\<close>

theorem checkAll_first_group_names_counterexample:
  "snd (checkAll [3] two_groups) 2 = [Obj \<lparr>title = ''A'', elo = 2\<rparr>]
   \<and> snd (checkAll [3] two_groups) 3 = [Obj \<lparr>title = ''B'', elo = 9\<rparr>]
   \<and> fst (checkAll [2, 3] (snd (checkAll [3] two_groups))) = Inr newList
   \<and> snd (checkAll [2, 3] (snd (checkAll [3] two_groups))) newList =
       [Dict \<lparr>title = ''B'', elo = 9\<rparr>, Dict \<lparr>title = ''A'', elo = 2\<rparr>]
   \<and> snd (checkAll [2, 3] (snd (checkAll [3] two_groups))) newList \<noteq>
       [Dict \<lparr>title = ''A'', elo = 2\<rparr>]"
  by (simp add: checkAll_B checkAll_B_AB) (simp add: two_groups_records newList_def)

text \<open>
  Claim C8 says that neither function mutates its input. \<open>checkAll\<close> does, when a group of
  the collection is the list object \<open>newList\<close>, which every call of \<open>checkAll\<close> returns to its
  caller: on \<open>[[A:2], newList]\<close>, with \<open>newList\<close> empty, the second group of the input is empty
  before the call and holds the dictionary \<open>A:2\<close> after it.
\<close>

theorem inputs_unchanged_counterexample:
  "two_groups ([2, newList] ! 0) = [Obj \<lparr>title = ''A'', elo = 2\<rparr>]
   \<and> two_groups ([2, newList] ! 1) = []
   \<and> fst (checkAll [2, newList] two_groups) = Inr newList
   \<and> snd (checkAll [2, newList] two_groups) ([2, newList] ! 1) =
       [Dict \<lparr>title = ''A'', elo = 2\<rparr>]
   \<and> snd (checkAll [2, newList] two_groups) ([2, newList] ! 1) \<noteq> two_groups ([2, newList] ! 1)"
  by (simp add: checkAll_def checkAll_body_def calculateTotalElo_def two_groups_def
      empty_lists_def newList_def upt_rec)

end
